theory Spec2Isabelle
  imports Complex_Main
begin

section \<open>Errors and Python values\<close>

text \<open>
  The exceptions of \<^verbatim>\<open>opennmt/models/model.py\<close> as values. \<open>ValueError\<close> carries its
  message; \<open>KeyError\<close> the missing key. \<open>TypeError\<close> is the failure of a call
  whose callee is not a function of the arguments given. \<open>ZeroDivisionError\<close> is
  Python's integer division by zero, \<open>InvalidArgumentError\<close> the failure of a tensor
  operation when it runs (an integer tensor divided by zero).
\<close>

datatype error =
    ValueError string
  | KeyError string
  | TypeError
  | ZeroDivisionError
  | InvalidArgumentError string

text \<open>Sequencing of fallible steps: the first error ends the computation.\<close>

definition bind_err :: "error + 'a \<Rightarrow> ('a \<Rightarrow> error + 'b) \<Rightarrow> error + 'b" where
  "bind_err r k = (case r of Inl e \<Rightarrow> Inl e | Inr v \<Rightarrow> k v)"

text \<open>\<^verbatim>\<open>d[key]\<close> on a dictionary entry that may be missing.\<close>

definition getitem :: "string \<Rightarrow> 'a option \<Rightarrow> error + 'a" where
  "getitem key entry = (case entry of None \<Rightarrow> Inl (KeyError key) | Some v \<Rightarrow> Inr v)"

text \<open>Python's \<^verbatim>\<open>a // b\<close> on integers: floor division, raising on a zero divisor.\<close>

definition py_floordiv :: "int \<Rightarrow> int \<Rightarrow> error + int" where
  "py_floordiv a b = (if b = 0 then Inl ZeroDivisionError else Inr (a div b))"

text \<open>
  \<^verbatim>\<open>tensor // b\<close> on an integer tensor: floor division, evaluated when the graph runs,
  where a zero divisor is an invalid argument.
\<close>

definition tf_floordiv :: "int \<Rightarrow> int \<Rightarrow> error + int" where
  "tf_floordiv a b =
     (if b = 0 then Inl (InvalidArgumentError ''Integer division by zero'') else Inr (a div b))"

section \<open>Learning rate decay\<close>

text \<open>
  A learning rate is a floating point number: a number or \<^verbatim>\<open>NaN\<close>. Rounding and
  the infinities are not modelled. \<^verbatim>\<open>tf.maximum\<close> is \<^verbatim>\<open>NaN\<close> as soon as one of its
  arguments is, and a comparison with \<^verbatim>\<open>NaN\<close> is false.
\<close>

datatype tf_float = Float real | NaN

definition tf_maximum :: "tf_float \<Rightarrow> tf_float \<Rightarrow> tf_float" where
  "tf_maximum x y =
     (case x of
        NaN \<Rightarrow> NaN
      | Float a \<Rightarrow> (case y of NaN \<Rightarrow> NaN | Float b \<Rightarrow> Float (max a b)))"

definition tf_greater_equal :: "tf_float \<Rightarrow> tf_float \<Rightarrow> bool" where
  "tf_greater_equal x y =
     (case x of
        NaN \<Rightarrow> False
      | Float a \<Rightarrow> (case y of NaN \<Rightarrow> False | Float b \<Rightarrow> b \<le> a))"

text \<open>
  A decay strategy is called as
  \<^verbatim>\<open>op(learning_rate, step, decay_steps, decay_rate, staircase=staircase)\<close>; steps
  are 64-bit integer tensors in the source and unbounded integers here.
\<close>

type_synonym decay_op = "tf_float \<Rightarrow> int \<Rightarrow> int \<Rightarrow> tf_float \<Rightarrow> bool \<Rightarrow> tf_float"

text \<open>
  The two modules searched by name, \<^verbatim>\<open>tf.train\<close> and \<^verbatim>\<open>opennmt.utils.decay\<close>, are
  not part of the file: they are parameters, each a table from attribute names to
  attributes. An attribute is a decay strategy, or anything else a module holds (a
  class such as \<^verbatim>\<open>Saver\<close>, a function of other arguments such as
  \<^verbatim>\<open>polynomial_decay\<close>, which has no \<^verbatim>\<open>staircase\<close>). \<^verbatim>\<open>getattr\<close> finds both kinds;
  a missing attribute, and one whose value is \<^verbatim>\<open>None\<close>, read as \<open>None\<close>.
\<close>

datatype attribute = Strategy decay_op | NotStrategy

type_synonym namespace = "string \<rightharpoonup> attribute"

text \<open>\<^verbatim>\<open>getattr(module, name, None)\<close>.\<close>

definition getattr :: "namespace \<Rightarrow> string \<Rightarrow> attribute option" where
  "getattr ns name = ns name"

text \<open>
  The call of the attribute found: a strategy returns its rate, the call of anything
  else raises \<^verbatim>\<open>TypeError\<close>.
\<close>

definition call_attribute ::
  "attribute \<Rightarrow> tf_float \<Rightarrow> int \<Rightarrow> int \<Rightarrow> tf_float \<Rightarrow> bool \<Rightarrow> error + tf_float" where
  "call_attribute a learning_rate step decay_steps decay_rate staircase =
     (case a of
        Strategy f \<Rightarrow> Inr (f learning_rate step decay_steps decay_rate staircase)
      | NotStrategy \<Rightarrow> Inl TypeError)"

text \<open>
  The inner function \<^verbatim>\<open>decay_fn(learning_rate, global_step)\<close>, with the variables of
  the enclosing \<^verbatim>\<open>learning_rate_decay_fn\<close> it closes over as its first arguments.
\<close>

definition decay_fn ::
  "namespace \<Rightarrow> namespace \<Rightarrow> string \<Rightarrow> tf_float \<Rightarrow> int \<Rightarrow> bool \<Rightarrow> int \<Rightarrow> tf_float \<Rightarrow>
   tf_float \<Rightarrow> int \<Rightarrow> error + tf_float" where
  "decay_fn tf_train decay decay_type decay_rate decay_steps staircase start_decay_steps
     minimum_learning_rate learning_rate global_step =
     (let decay_op_name = (None :: attribute option);
          decay_op_name = (case decay_op_name of
                             None \<Rightarrow> getattr tf_train decay_type
                           | Some a \<Rightarrow> Some a);
          decay_op_name = (case decay_op_name of
                             None \<Rightarrow> getattr decay decay_type
                           | Some a \<Rightarrow> Some a)
      in case decay_op_name of
           None \<Rightarrow> Inl (ValueError (''Unknown decay function: '' @ decay_type))
         | Some a \<Rightarrow>
             bind_err
               (call_attribute a learning_rate (max (global_step - start_decay_steps) 0)
                  decay_steps decay_rate staircase)
               (\<lambda>decayed_learning_rate.
                  (let decayed_learning_rate =
                         tf_maximum decayed_learning_rate minimum_learning_rate
                   in Inr decayed_learning_rate)))"

text \<open>
  \<^verbatim>\<open>learning_rate_decay_fn\<close> defines the closure and returns it; its body has no
  \<^verbatim>\<open>raise\<close> and no lookup.
\<close>

definition learning_rate_decay_fn ::
  "namespace \<Rightarrow> namespace \<Rightarrow> string \<Rightarrow> tf_float \<Rightarrow> int \<Rightarrow> bool \<Rightarrow> int \<Rightarrow> tf_float \<Rightarrow>
   error + (tf_float \<Rightarrow> int \<Rightarrow> error + tf_float)" where
  "learning_rate_decay_fn tf_train decay decay_type decay_rate decay_steps staircase
     start_decay_steps minimum_learning_rate =
     Inr (decay_fn tf_train decay decay_type decay_rate decay_steps staircase
            start_decay_steps minimum_learning_rate)"

text \<open>
  A sample strategy for concrete runs: exponential decay,
  \<open>learning_rate * decay_rate ^ (step / decay_steps)\<close>, the exponent floored to an
  integer when \<open>staircase\<close> holds. A negative rate to a power that is not an integer
  is \<^verbatim>\<open>NaN\<close>. The sample covers numbers with a rate and a \<open>decay_steps\<close> other than
  zero; elsewhere (where the library gives a number, an infinity or \<^verbatim>\<open>NaN\<close>,
  case by case) the sample is \<^verbatim>\<open>NaN\<close>.
\<close>

definition int_power :: "real \<Rightarrow> int \<Rightarrow> real" where
  "int_power r k = (if 0 \<le> k then r ^ nat k else inverse (r ^ nat (- k)))"

definition exponential_decay :: decay_op where
  "exponential_decay learning_rate step decay_steps decay_rate staircase =
     (case learning_rate of
        NaN \<Rightarrow> NaN
      | Float l \<Rightarrow>
          (case decay_rate of
             NaN \<Rightarrow> NaN
           | Float r \<Rightarrow>
               if decay_steps = 0 \<or> r = 0 then NaN
               else if staircase \<or> decay_steps dvd step
                 then Float (l * int_power r (step div decay_steps))
               else if r < 0 then NaN
               else Float (l * r powr (real_of_int step / real_of_int decay_steps))))"

text \<open>
  Sample modules: the standard one has exponential decay and the class \<^verbatim>\<open>Saver\<close>;
  the custom one has a strategy that halves the rate, and a strategy under the name
  of the standard exponential decay.
\<close>

definition sample_tf_train :: namespace where
  "sample_tf_train = [''exponential_decay'' \<mapsto> Strategy exponential_decay,
                      ''Saver'' \<mapsto> NotStrategy]"

definition half_decay :: decay_op where
  "half_decay learning_rate step decay_steps decay_rate staircase =
     (case learning_rate of NaN \<Rightarrow> NaN | Float l \<Rightarrow> Float (l / 2))"

definition zero_decay :: decay_op where
  "zero_decay learning_rate step decay_steps decay_rate staircase = Float 0"

definition sample_decay :: namespace where
  "sample_decay = [''noam_decay'' \<mapsto> Strategy half_decay,
                   ''exponential_decay'' \<mapsto> Strategy zero_decay]"

section \<open>The training op\<close>

text \<open>
  The \<^verbatim>\<open>params\<close> dictionary, one field per key that \<^verbatim>\<open>_build_train_op\<close> reads. The
  outer \<open>option\<close> says whether the key is in the dictionary; \<^verbatim>\<open>decay_type\<close> and
  \<^verbatim>\<open>clip_gradients\<close> may hold \<^verbatim>\<open>None\<close>, the inner \<open>option\<close>.
\<close>

record params =
  p_decay_type :: "string option option"
  p_decay_rate :: "tf_float option"
  p_decay_steps :: "int option"
  p_staircase :: "bool option"
  p_start_decay_steps :: "int option"
  p_minimum_learning_rate :: "tf_float option"
  p_learning_rate :: "tf_float option"
  p_optimizer :: "string option"
  p_clip_gradients :: "real option option"

text \<open>
  The call \<^verbatim>\<open>tf.contrib.layers.optimize_loss(...)\<close> that \<^verbatim>\<open>_build_train_op\<close> ends
  with, as the record of its arguments. The global step is the graph's variable of
  that name.
\<close>

record 'l optimize_loss_call =
  ol_loss :: 'l
  ol_global_step :: string
  ol_learning_rate :: tf_float
  ol_optimizer :: string
  ol_clip_gradients :: "real option"
  ol_learning_rate_decay_fn :: "(tf_float \<Rightarrow> int \<Rightarrow> error + tf_float) option"
  ol_summaries :: "string list"

definition build_train_op ::
  "namespace \<Rightarrow> namespace \<Rightarrow> 'l \<Rightarrow> params \<Rightarrow> error + 'l optimize_loss_call" where
  "build_train_op tf_train decay loss params =
     (let global_step = ''global_step'' in
      bind_err (getitem ''decay_type'' (p_decay_type params)) (\<lambda>decay_type.
      bind_err
        (case decay_type of
           Some decay_type \<Rightarrow>
             bind_err (getitem ''decay_rate'' (p_decay_rate params)) (\<lambda>decay_rate.
             bind_err (getitem ''decay_steps'' (p_decay_steps params)) (\<lambda>decay_steps.
             bind_err (getitem ''staircase'' (p_staircase params)) (\<lambda>staircase.
             bind_err (getitem ''start_decay_steps'' (p_start_decay_steps params))
               (\<lambda>start_decay_steps.
             bind_err (getitem ''minimum_learning_rate'' (p_minimum_learning_rate params))
               (\<lambda>minimum_learning_rate.
             bind_err
               (learning_rate_decay_fn tf_train decay decay_type decay_rate decay_steps
                  staircase start_decay_steps minimum_learning_rate)
               (\<lambda>decay_fn. Inr (Some decay_fn)))))))
         | None \<Rightarrow> Inr None)
        (\<lambda>decay_fn.
      bind_err (getitem ''learning_rate'' (p_learning_rate params)) (\<lambda>learning_rate.
      bind_err (getitem ''optimizer'' (p_optimizer params)) (\<lambda>optimizer.
      bind_err (getitem ''clip_gradients'' (p_clip_gradients params)) (\<lambda>clip_gradients.
      Inr \<lparr> ol_loss = loss,
            ol_global_step = global_step,
            ol_learning_rate = learning_rate,
            ol_optimizer = optimizer,
            ol_clip_gradients = clip_gradients,
            ol_learning_rate_decay_fn = decay_fn,
            ol_summaries = [''learning_rate'', ''loss'', ''global_gradient_norm''] \<rparr>))))))"

text \<open>
  What the optimizer step builder does with these arguments is the library's part:
  \<^verbatim>\<open>optimize_loss\<close> uses \<^verbatim>\<open>learning_rate\<close> as it is when
  \<^verbatim>\<open>learning_rate_decay_fn\<close> is \<^verbatim>\<open>None\<close>, and
  \<^verbatim>\<open>learning_rate_decay_fn(learning_rate, global_step)\<close> otherwise.
\<close>

definition optimize_loss_learning_rate ::
  "'l optimize_loss_call \<Rightarrow> int \<Rightarrow> error + tf_float" where
  "optimize_loss_learning_rate call step =
     (case ol_learning_rate_decay_fn call of
        None \<Rightarrow> Inr (ol_learning_rate call)
      | Some f \<Rightarrow> f (ol_learning_rate call) step)"

section \<open>Examples, labels and the word counters\<close>

text \<open>
  Features are a dictionary from field names to tensors. Labels are \<^verbatim>\<open>None\<close>, a
  dictionary, or a value that is not a dictionary (a bare tensor). The tensor type
  is a parameter: an integer for the \<^verbatim>\<open>length\<close> of one example in the dataset, a
  list of integers for the lengths of a batch. Integer tensors are unbounded
  integers here.
\<close>

type_synonym 't features = "string \<rightharpoonup> 't"

datatype 't labels = LNone | LDict "string \<rightharpoonup> 't" | LTensor 't

text \<open>
  The graph under construction, as the list of the nodes added so far. A variable has
  a name, an initial value and its \<^verbatim>\<open>trainable\<close> flag; an \<^verbatim>\<open>assign_add\<close> node has its
  name, the name of the variable it updates and the value it adds.
\<close>

datatype node =
    Variable string int bool
  | AssignAdd string string int

definition reduce_sum :: "int list \<Rightarrow> int" where
  "reduce_sum t = sum_list t"

text \<open>
  \<^verbatim>\<open>_add_counter(word_count, name)\<close>; the variable scope in force,
  \<^verbatim>\<open>words_per_sec\<close> at both calls, is its first argument.
\<close>

definition add_counter :: "string \<Rightarrow> int \<Rightarrow> string \<Rightarrow> node list \<Rightarrow> node list" where
  "add_counter scope word_count name graph =
     (let total_word_count = scope @ ''/'' @ name @ ''_init''
      in graph @ [Variable total_word_count 0 False,
                  AssignAdd (scope @ ''/'' @ name) total_word_count word_count])"

definition count_words ::
  "int list features \<Rightarrow> int list labels \<Rightarrow> node list \<Rightarrow> node list" where
  "count_words features labels graph =
     (let features_length = features ''length'';
          labels_length = (case labels of LDict d \<Rightarrow> d ''length'' | _ \<Rightarrow> None);
          graph = (case features_length of
                     Some t \<Rightarrow> add_counter ''words_per_sec'' (reduce_sum t) ''features'' graph
                   | None \<Rightarrow> graph);
          graph = (case labels_length of
                     Some t \<Rightarrow> add_counter ''words_per_sec'' (reduce_sum t) ''labels'' graph
                   | None \<Rightarrow> graph)
      in graph)"

section \<open>The example filter\<close>

text \<open>\<^verbatim>\<open>tf.reduce_all\<close> of a list of conditions; the empty list reduces to true.\<close>

definition reduce_all :: "bool list \<Rightarrow> bool" where
  "reduce_all cond = foldr (\<and>) cond True"

definition filter_example ::
  "int features \<Rightarrow> int labels \<Rightarrow> int option \<Rightarrow> int option \<Rightarrow> bool" where
  "filter_example features labels maximum_features_length maximum_labels_length =
     (let features_length = features ''length'';
          labels_length = (case labels of LDict d \<Rightarrow> d ''length'' | _ \<Rightarrow> None);
          cond = [];
          cond = (case features_length of
                    None \<Rightarrow> cond
                  | Some fl \<Rightarrow>
                      (let cond = cond @ [0 < fl]
                       in case maximum_features_length of
                            None \<Rightarrow> cond
                          | Some m \<Rightarrow> cond @ [fl \<le> m]));
          cond = (case labels_length of
                    None \<Rightarrow> cond
                  | Some ll \<Rightarrow>
                      (let cond = cond @ [0 < ll]
                       in case maximum_labels_length of
                            None \<Rightarrow> cond
                          | Some m \<Rightarrow> cond @ [ll \<le> m]))
      in reduce_all cond)"

section \<open>The input pipeline\<close>

datatype mode = TRAIN | EVAL | PREDICT

text \<open>
  The width of a bucket, the first statement of \<^verbatim>\<open>key_func\<close>. The test
  \<^verbatim>\<open>if maximum_features_length:\<close> is Python's truth test: \<^verbatim>\<open>None\<close> and \<^verbatim>\<open>0\<close> both
  fail it.
\<close>

definition bucket_width :: "int option \<Rightarrow> int \<Rightarrow> error + int" where
  "bucket_width maximum_features_length num_buckets =
     (case maximum_features_length of
        None \<Rightarrow> Inr 10
      | Some m \<Rightarrow>
          (if m \<noteq> 0 then py_floordiv (m + num_buckets - 1) num_buckets else Inr 10))"

text \<open>
  \<^verbatim>\<open>key_func(features, labels)\<close>, closed over \<^verbatim>\<open>maximum_features_length\<close> and
  \<^verbatim>\<open>num_buckets\<close>. \<^verbatim>\<open>features["length"]\<close> raises on a dictionary without the key.
\<close>

definition key_func ::
  "int option \<Rightarrow> int \<Rightarrow> int features \<Rightarrow> int labels \<Rightarrow> error + int" where
  "key_func maximum_features_length num_buckets features labels =
     bind_err (bucket_width maximum_features_length num_buckets) (\<lambda>width.
     bind_err (getitem ''length'' (features ''length'')) (\<lambda>features_length.
     bind_err (tf_floordiv features_length width) (\<lambda>bucket_id.
     Inr (min bucket_id num_buckets))))"

text \<open>
  The dataset a call of \<^verbatim>\<open>_input_fn_impl\<close> builds, as the term of the dataset
  operations applied: nothing is read before the iterator runs. \<open>'d\<close> is what a
  subclass's builder returns for a file, \<open>'ps\<close> its padded shapes.
  \<^verbatim>\<open>group_by_window\<close> keeps its key function; its \<^verbatim>\<open>reduce_func\<close> is a padded batch
  of a window, kept as that batch's size and shapes.
\<close>

datatype 'ps padded_shapes = Shapes 'ps | ShapesPair 'ps 'ps

datatype ('d, 'ps) dataset =
    Source 'd
  | Zip "('d, 'ps) dataset" "('d, 'ps) dataset"
  | Filter "int features \<Rightarrow> int labels \<Rightarrow> bool" "('d, 'ps) dataset"
  | Shuffle int int "('d, 'ps) dataset"
  | Repeat "('d, 'ps) dataset"
  | PaddedBatch int "'ps padded_shapes" "('d, 'ps) dataset"
  | GroupByWindow "int features \<Rightarrow> int labels \<Rightarrow> error + int" "int \<times> 'ps padded_shapes"
      int "('d, 'ps) dataset"

text \<open>The two builders a subclass supplies.\<close>

record ('r, 'd, 'ps) model =
  build_features :: "string \<Rightarrow> 'r \<Rightarrow> 'd \<times> 'ps"
  build_labels :: "string \<Rightarrow> 'r \<Rightarrow> 'd \<times> 'ps"

text \<open>
  \<^verbatim>\<open>_input_fn_impl\<close>. The reading of the clock that seeds the shuffle,
  \<^verbatim>\<open>int(time.time())\<close>, is the argument \<open>now\<close>.
\<close>

definition input_fn_impl ::
  "('r, 'd, 'ps) model \<Rightarrow> int \<Rightarrow> mode \<Rightarrow> int \<Rightarrow> int \<Rightarrow> int \<Rightarrow> 'r \<Rightarrow> string \<Rightarrow>
   string option \<Rightarrow> int option \<Rightarrow> int option \<Rightarrow> ('d, 'ps) dataset" where
  "input_fn_impl self now mode batch_size buffer_size num_buckets resources features_file
     labels_file maximum_features_length maximum_labels_length =
     (let (features_dataset, features_padded_shapes) =
            build_features self features_file resources;
          (dataset, padded_shapes) =
            (case labels_file of
               None \<Rightarrow> (Source features_dataset, Shapes features_padded_shapes)
             | Some lf \<Rightarrow>
                 (let (labels_dataset, labels_padded_shapes) = build_labels self lf resources
                  in (Zip (Source features_dataset) (Source labels_dataset),
                      ShapesPair features_padded_shapes labels_padded_shapes)));
          dataset =
            (if mode = TRAIN then
               Repeat (Shuffle buffer_size now
                 (Filter (\<lambda>features labels.
                            filter_example features labels
                              maximum_features_length maximum_labels_length)
                    dataset))
             else dataset);
          dataset =
            (if mode = PREDICT \<or> num_buckets \<le> 1 then
               PaddedBatch batch_size padded_shapes dataset
             else
               GroupByWindow (key_func maximum_features_length num_buckets)
                 (batch_size, padded_shapes) batch_size dataset)
      in dataset)"

text \<open>
  \<^verbatim>\<open>input_fn\<close> checks the labels file and returns the closure over its arguments; the
  closure's argument is the clock reading of the moment it is called.
\<close>

definition input_fn ::
  "('r, 'd, 'ps) model \<Rightarrow> mode \<Rightarrow> int \<Rightarrow> int \<Rightarrow> int \<Rightarrow> 'r \<Rightarrow> string \<Rightarrow>
   string option \<Rightarrow> int option \<Rightarrow> int option \<Rightarrow> error + (int \<Rightarrow> ('d, 'ps) dataset)" where
  "input_fn self mode batch_size buffer_size num_buckets resources features_file
     labels_file maximum_features_length maximum_labels_length =
     (if mode \<noteq> PREDICT \<and> labels_file = None then
        Inl (ValueError ''Labels file is required for training and evaluation'')
      else
        Inr (\<lambda>now. input_fn_impl self now mode batch_size buffer_size num_buckets resources
                     features_file labels_file maximum_features_length
                     maximum_labels_length))"

section \<open>The specification's formulas\<close>

text \<open>
  The bucket width and bucket id in the specification's words: the width is
  \<open>ceil(maximum_features_length / num_buckets)\<close> when the bound is set and 10
  otherwise, the id is \<open>min(floor(length / bucket_width), num_buckets)\<close>.
\<close>

definition spec_bucket_width :: "int option \<Rightarrow> int \<Rightarrow> int" where
  "spec_bucket_width maximum_features_length num_buckets =
     (case maximum_features_length of
        None \<Rightarrow> 10
      | Some m \<Rightarrow> \<lceil>real_of_int m / real_of_int num_buckets\<rceil>)"

definition spec_bucket_id :: "int \<Rightarrow> int \<Rightarrow> int \<Rightarrow> int" where
  "spec_bucket_id len width num_buckets =
     min \<lfloor>real_of_int len / real_of_int width\<rfloor> num_buckets"

text \<open>
  A length bound of a valid configuration in the specification's words: unset, or
  positive (a bound of zero or below is an invalid configuration).
\<close>

definition valid_bound :: "int option \<Rightarrow> bool" where
  "valid_bound bound = (case bound of None \<Rightarrow> True | Some m \<Rightarrow> 0 < m)"

text \<open>
  The resolution order of a decay type in the specification's words: the standard
  module first, the custom one second.
\<close>

definition resolved_strategy :: "namespace \<Rightarrow> namespace \<Rightarrow> string \<Rightarrow> attribute option" where
  "resolved_strategy standard custom decay_type =
     (case standard decay_type of
        Some a \<Rightarrow> Some a
      | None \<Rightarrow> custom decay_type)"

text \<open>
  The filter in the specification's words: the conjunction of the conditions that
  apply to the features and of those that apply to the labels.
\<close>

definition length_ok :: "int option \<Rightarrow> int option \<Rightarrow> bool" where
  "length_ok len maximum =
     (case len of
        None \<Rightarrow> True
      | Some n \<Rightarrow> 0 < n \<and> (case maximum of None \<Rightarrow> True | Some m \<Rightarrow> n \<le> m))"

definition labels_length :: "'t labels \<Rightarrow> 't option" where
  "labels_length labels = (case labels of LDict d \<Rightarrow> d ''length'' | _ \<Rightarrow> None)"

definition spec_filter ::
  "int features \<Rightarrow> int labels \<Rightarrow> int option \<Rightarrow> int option \<Rightarrow> bool" where
  "spec_filter features labels maximum_features_length maximum_labels_length =
     (length_ok (features ''length'') maximum_features_length \<and>
      length_ok (labels_length labels) maximum_labels_length)"

text \<open>
  The nodes of a counter among a list of nodes: the variable and the update that
  \<^verbatim>\<open>_add_counter\<close> names after the modality.
\<close>

fun node_name :: "node \<Rightarrow> string" where
  "node_name (Variable name initial_value trainable) = name"
| "node_name (AssignAdd name ref val) = name"

definition counter_nodes :: "string \<Rightarrow> node list \<Rightarrow> node list" where
  "counter_nodes modality nodes =
     filter (\<lambda>n. node_name n = ''words_per_sec/'' @ modality @ ''_init'' \<or>
                  node_name n = ''words_per_sec/'' @ modality) nodes"

definition counter_of :: "string \<Rightarrow> int list option \<Rightarrow> node list" where
  "counter_of modality len =
     (case len of
        None \<Rightarrow> []
      | Some t \<Rightarrow>
          [Variable (''words_per_sec/'' @ modality @ ''_init'') 0 False,
           AssignAdd (''words_per_sec/'' @ modality)
             (''words_per_sec/'' @ modality @ ''_init'') (reduce_sum t)])"

text \<open>A model for concrete runs: a file's dataset is its name, its shapes are trivial.\<close>

definition sample_model :: "(unit, string, unit) model" where
  "sample_model =
     \<lparr> build_features = (\<lambda>file resources. (file, ())),
       build_labels = (\<lambda>file resources. (file, ())) \<rparr>"

text \<open>A \<^verbatim>\<open>params\<close> dictionary for concrete runs: no decay, a rate of one tenth.\<close>

definition sample_params :: params where
  "sample_params =
     \<lparr> p_decay_type = Some None, p_decay_rate = None, p_decay_steps = None,
       p_staircase = None, p_start_decay_steps = None, p_minimum_learning_rate = None,
       p_learning_rate = Some (Float (1 / 10)), p_optimizer = Some ''Adam'',
       p_clip_gradients = Some None \<rparr>"

text \<open>The same dictionary without the key \<^verbatim>\<open>decay_type\<close>.\<close>

definition sample_params_no_decay_type :: params where
  "sample_params_no_decay_type = sample_params \<lparr> p_decay_type := None \<rparr>"

text \<open>The operations of a dataset, the last one applied first.\<close>

fun dataset_ops :: "('d, 'ps) dataset \<Rightarrow> string list" where
  "dataset_ops (Source d) = []"
| "dataset_ops (Zip a b) = ''zip'' # dataset_ops a @ dataset_ops b"
| "dataset_ops (Filter predicate d) = ''filter'' # dataset_ops d"
| "dataset_ops (Shuffle buffer_size seed d) = ''shuffle'' # dataset_ops d"
| "dataset_ops (Repeat d) = ''repeat'' # dataset_ops d"
| "dataset_ops (PaddedBatch batch_size shapes d) = ''padded_batch'' # dataset_ops d"
| "dataset_ops (GroupByWindow key reduce window_size d) = ''group_by_window'' # dataset_ops d"

section \<open>Arithmetic of the bucket width\<close>

lemma ceiling_div_as_floordiv:
  assumes "0 < (b::int)"
  shows "- ((- a) div b) = (a + b - 1) div b"
proof -
  have split: "a + b - 1 = (a mod b + b - 1) + (a div b) * b"
    by (simp add: algebra_simps)
  have r: "0 \<le> a mod b" "a mod b < b"
    using assms by simp_all
  have sum: "(a + b - 1) div b = (a mod b + b - 1) div b + a div b"
    unfolding split using assms by (simp only: div_mult_self1 div_mult_self2 div_mult_self3)
  show ?thesis
  proof (cases "a mod b = 0")
    case True
    then have "(a mod b + b - 1) div b = 0"
      using assms by (simp add: div_pos_pos_trivial)
    moreover have "(- a) div b = - (a div b)"
      using True assms by (simp add: zdiv_zminus1_eq_if)
    ultimately show ?thesis
      using sum by simp
  next
    case False
    then have pos: "0 < a mod b"
      using r by simp
    have "(a mod b + b - 1) div b = (a mod b - 1) div b + 1"
      using assms pos by (simp add: div_pos_geq)
    also have "(a mod b - 1) div b = 0"
      using pos r by (simp add: div_pos_pos_trivial)
    finally have one: "(a mod b + b - 1) div b = 1"
      by simp
    have "(- a) div b = - (a div b) - 1"
      using False assms by (simp add: zdiv_zminus1_eq_if)
    then show ?thesis
      using one sum by simp
  qed
qed

lemma spec_bucket_width_Some:
  "0 < num_buckets \<Longrightarrow>
   spec_bucket_width (Some m) num_buckets = (m + num_buckets - 1) div num_buckets"
  by (simp add: spec_bucket_width_def ceiling_divide_eq_div ceiling_div_as_floordiv)

lemma spec_bucket_id_div:
  "spec_bucket_id len width num_buckets = min (len div width) num_buckets"
  by (simp add: spec_bucket_id_def floor_divide_of_int_eq)

lemma bucket_width_spec:
  "0 < num_buckets \<Longrightarrow> valid_bound maximum_features_length \<Longrightarrow>
   bucket_width maximum_features_length num_buckets =
     Inr (spec_bucket_width maximum_features_length num_buckets)"
  by (auto simp add: bucket_width_def spec_bucket_width_def valid_bound_def py_floordiv_def
      ceiling_divide_eq_div ceiling_div_as_floordiv split: option.splits)

lemma spec_bucket_width_positive:
  "0 < num_buckets \<Longrightarrow> valid_bound maximum_features_length \<Longrightarrow>
   0 < spec_bucket_width maximum_features_length num_buckets"
  by (auto simp add: spec_bucket_width_def valid_bound_def split: option.splits)

lemma key_func_width:
  "bucket_width maximum_features_length num_buckets = Inr width \<Longrightarrow>
   features ''length'' = Some len \<Longrightarrow> width \<noteq> 0 \<Longrightarrow>
   key_func maximum_features_length num_buckets features labels =
     Inr (spec_bucket_id len width num_buckets)"
  by (simp add: key_func_def bind_err_def getitem_def tf_floordiv_def spec_bucket_id_div)

lemma decay_fn_resolved:
  "decay_fn tf_train decay decay_type decay_rate decay_steps staircase start_decay_steps
     minimum_learning_rate learning_rate global_step =
   (case resolved_strategy tf_train decay decay_type of
      None \<Rightarrow> Inl (ValueError (''Unknown decay function: '' @ decay_type))
    | Some NotStrategy \<Rightarrow> Inl TypeError
    | Some (Strategy f) \<Rightarrow>
        Inr (tf_maximum (f learning_rate (max (global_step - start_decay_steps) 0)
                           decay_steps decay_rate staircase)
                        minimum_learning_rate))"
  by (simp add: decay_fn_def resolved_strategy_def getattr_def call_attribute_def bind_err_def
      Let_def split: option.splits attribute.splits)

lemma sample_resolved:
  "resolved_strategy sample_tf_train sample_decay ''exponential_decay'' =
     Some (Strategy exponential_decay)"
  "resolved_strategy sample_tf_train sample_decay ''noam_decay'' = Some (Strategy half_decay)"
  "resolved_strategy sample_tf_train sample_decay ''linear_decay'' = None"
  "resolved_strategy sample_tf_train sample_decay ''Saver'' = Some NotStrategy"
  by (simp_all add: resolved_strategy_def sample_tf_train_def sample_decay_def)

lemma tf_maximum_simps:
  "tf_maximum (Float a) (Float b) = Float (max a b)"
  "tf_maximum NaN y = NaN"
  "tf_maximum x NaN = NaN"
  by (simp_all add: tf_maximum_def split: tf_float.splits)

lemma tf_maximum_greater_equal:
  "tf_maximum x y \<noteq> NaN \<Longrightarrow> tf_greater_equal (tf_maximum x y) y"
  by (simp add: tf_maximum_def tf_greater_equal_def split: tf_float.splits)

lemma tf_maximum_NaN_iff:
  "tf_maximum x y = NaN \<longleftrightarrow> x = NaN \<or> y = NaN"
  by (simp add: tf_maximum_def split: tf_float.splits)

lemma reduce_all_append: "reduce_all (xs @ ys) = (reduce_all xs \<and> reduce_all ys)"
  by (induction xs) (simp_all add: reduce_all_def)

lemma reduce_all_simps:
  "reduce_all [] = True" "reduce_all (b # bs) = (b \<and> reduce_all bs)"
  by (simp_all add: reduce_all_def)

section \<open>Bucketing\<close>

text \<open>
  C1. \<^verbatim>\<open>key_func\<close> exists only where \<open>num_buckets > 1\<close>. For every example that
  carries a \<^verbatim>\<open>length\<close> and every valid bound (unset, or positive), the bucket width
  is \<open>ceil(maximum_features_length / num_buckets)\<close> when the bound is set and 10
  otherwise, and the key function returns
  \<open>min(floor(length / bucket_width), num_buckets)\<close>.
\<close>

theorem key_func_bucket_id:
  assumes "features ''length'' = Some len"
    and "1 < num_buckets"
    and "valid_bound maximum_features_length"
  shows "bucket_width maximum_features_length num_buckets =
           Inr (spec_bucket_width maximum_features_length num_buckets) \<and>
         key_func maximum_features_length num_buckets features labels =
           Inr (spec_bucket_id len
                  (spec_bucket_width maximum_features_length num_buckets) num_buckets)"
proof -
  have pos: "0 < num_buckets"
    using assms(2) by simp
  have width: "bucket_width maximum_features_length num_buckets =
      Inr (spec_bucket_width maximum_features_length num_buckets)"
    using pos assms(3) by (rule bucket_width_spec)
  have nonzero: "spec_bucket_width maximum_features_length num_buckets \<noteq> 0"
    using spec_bucket_width_positive [OF pos assms(3)] by simp
  have "key_func maximum_features_length num_buckets features labels =
      Inr (spec_bucket_id len
             (spec_bucket_width maximum_features_length num_buckets) num_buckets)"
    using key_func_width [of maximum_features_length num_buckets _ features len labels]
      width assms(1) nonzero by simp
  with width show ?thesis
    by simp
qed

text \<open>
  The specification's example: with a bound of 100 and 10 buckets the width is 10,
  length 95 falls in bucket 9 and length 150 is clamped to bucket 10. Without a
  bound the width is 10 as well, and length 25 falls in bucket 2.
\<close>

theorem key_func_bucket_id_witness:
  "bucket_width (Some 100) 10 = Inr 10 \<and>
   key_func (Some 100) 10 [''length'' \<mapsto> 95] (LDict [''length'' \<mapsto> 80]) = Inr 9 \<and>
   key_func (Some 100) 10 [''length'' \<mapsto> 150] (LDict [''length'' \<mapsto> 80]) = Inr 10 \<and>
   bucket_width None 10 = Inr 10 \<and>
   key_func None 10 [''length'' \<mapsto> 25] (LDict [''length'' \<mapsto> 80]) = Inr 2"
proof -
  have w: "spec_bucket_width (Some 100) 10 = 10" "spec_bucket_width None 10 = 10"
    by (simp_all add: spec_bucket_width_def)
  have v: "valid_bound (Some 100)" "valid_bound None"
    by (simp_all add: valid_bound_def)
  show ?thesis
    using key_func_bucket_id [of "[''length'' \<mapsto> 95]" 95 10 "Some 100"
            "LDict [''length'' \<mapsto> 80]"]
          key_func_bucket_id [of "[''length'' \<mapsto> 150]" 150 10 "Some 100"
            "LDict [''length'' \<mapsto> 80]"]
          key_func_bucket_id [of "[''length'' \<mapsto> 25]" 25 10 None
            "LDict [''length'' \<mapsto> 80]"]
    by (simp add: w v spec_bucket_id_div)
qed

section \<open>The decay function\<close>

text \<open>
  C2. When the decay type resolves to a strategy, \<^verbatim>\<open>decay_fn\<close> applies it at the
  effective step \<open>max(global_step - start_decay_steps, 0)\<close> and clamps the result; so
  for every \<open>global_step < start_decay_steps\<close> the decayed rate is the rate at
  effective step 0, the same as at \<open>global_step = start_decay_steps\<close>.
\<close>

theorem decay_fn_effective_step:
  assumes "resolved_strategy tf_train decay decay_type = Some (Strategy f)"
  shows "decay_fn tf_train decay decay_type decay_rate decay_steps staircase start_decay_steps
           minimum_learning_rate learning_rate global_step =
         Inr (tf_maximum (f learning_rate (max (global_step - start_decay_steps) 0)
                            decay_steps decay_rate staircase)
                         minimum_learning_rate) \<and>
         (global_step < start_decay_steps \<longrightarrow>
            decay_fn tf_train decay decay_type decay_rate decay_steps staircase
              start_decay_steps minimum_learning_rate learning_rate global_step =
            Inr (tf_maximum (f learning_rate 0 decay_steps decay_rate staircase)
                            minimum_learning_rate) \<and>
            decay_fn tf_train decay decay_type decay_rate decay_steps staircase
              start_decay_steps minimum_learning_rate learning_rate global_step =
            decay_fn tf_train decay decay_type decay_rate decay_steps staircase
              start_decay_steps minimum_learning_rate learning_rate start_decay_steps)"
  using assms by (simp add: decay_fn_resolved max_def)

text \<open>
  Exponential decay by one half every 10 steps, starting after step 100: one quarter
  of the base rate at step 125, the base rate itself at steps 50 and 100.
\<close>

theorem decay_fn_effective_step_witness:
  "decay_fn sample_tf_train sample_decay ''exponential_decay'' (Float (1 / 2)) 10 True 100
     (Float 0) (Float 1) 125 = Inr (Float (1 / 4)) \<and>
   decay_fn sample_tf_train sample_decay ''exponential_decay'' (Float (1 / 2)) 10 True 100
     (Float 0) (Float 1) 50 = Inr (Float 1) \<and>
   decay_fn sample_tf_train sample_decay ''exponential_decay'' (Float (1 / 2)) 10 True 100
     (Float 0) (Float 1) 50 =
   decay_fn sample_tf_train sample_decay ''exponential_decay'' (Float (1 / 2)) 10 True 100
     (Float 0) (Float 1) 100"
  using decay_fn_effective_step [OF sample_resolved(1), of "Float (1 / 2)" 10 True 100
          "Float 0" "Float 1" 125]
        decay_fn_effective_step [OF sample_resolved(1), of "Float (1 / 2)" 10 True 100
          "Float 0" "Float 1" 50]
  by (simp add: decay_fn_resolved sample_resolved exponential_decay_def int_power_def
      tf_maximum_simps power2_eq_square)

text \<open>
  C3, as the code has it. Every value \<^verbatim>\<open>decay_fn\<close> returns that is a number is at
  least \<^verbatim>\<open>minimum_learning_rate\<close>; a resolved strategy's rate is always returned
  clamped by \<^verbatim>\<open>tf.maximum\<close>, and the value returned is \<^verbatim>\<open>NaN\<close> exactly when the
  strategy's rate or the minimum is \<^verbatim>\<open>NaN\<close>.
\<close>

theorem decay_fn_minimum:
  "(decay_fn tf_train decay decay_type decay_rate decay_steps staircase start_decay_steps
      minimum_learning_rate learning_rate global_step = Inr decayed \<and> decayed \<noteq> NaN \<longrightarrow>
    tf_greater_equal decayed minimum_learning_rate) \<and>
   (\<forall>f. resolved_strategy tf_train decay decay_type = Some (Strategy f) \<longrightarrow>
      decay_fn tf_train decay decay_type decay_rate decay_steps staircase start_decay_steps
        minimum_learning_rate learning_rate global_step =
      Inr (tf_maximum (f learning_rate (max (global_step - start_decay_steps) 0)
                         decay_steps decay_rate staircase)
                      minimum_learning_rate)) \<and>
   (decay_fn tf_train decay decay_type decay_rate decay_steps staircase start_decay_steps
      minimum_learning_rate learning_rate global_step = Inr NaN \<longleftrightarrow>
    (\<exists>f. resolved_strategy tf_train decay decay_type = Some (Strategy f) \<and>
         (f learning_rate (max (global_step - start_decay_steps) 0)
            decay_steps decay_rate staircase = NaN \<or>
          minimum_learning_rate = NaN)))"
proof -
  have a: "decay_fn tf_train decay decay_type decay_rate decay_steps staircase
      start_decay_steps minimum_learning_rate learning_rate global_step = Inr decayed \<and>
      decayed \<noteq> NaN \<longrightarrow> tf_greater_equal decayed minimum_learning_rate"
    by (auto simp add: decay_fn_resolved tf_maximum_greater_equal
        split: option.splits attribute.splits)
  have b: "\<forall>f. resolved_strategy tf_train decay decay_type = Some (Strategy f) \<longrightarrow>
      decay_fn tf_train decay decay_type decay_rate decay_steps staircase start_decay_steps
        minimum_learning_rate learning_rate global_step =
      Inr (tf_maximum (f learning_rate (max (global_step - start_decay_steps) 0)
                         decay_steps decay_rate staircase)
                      minimum_learning_rate)"
    by (simp add: decay_fn_resolved)
  have c: "decay_fn tf_train decay decay_type decay_rate decay_steps staircase
      start_decay_steps minimum_learning_rate learning_rate global_step = Inr NaN \<longleftrightarrow>
    (\<exists>f. resolved_strategy tf_train decay decay_type = Some (Strategy f) \<and>
         (f learning_rate (max (global_step - start_decay_steps) 0)
            decay_steps decay_rate staircase = NaN \<or>
          minimum_learning_rate = NaN))"
    by (auto simp add: decay_fn_resolved tf_maximum_NaN_iff
        split: option.splits attribute.splits)
  from a b c show ?thesis
    by blast
qed

text \<open>
  Halving at every step from rate 1 gives one sixteenth at step 4; with a minimum of
  one tenth the function returns one tenth.
\<close>

theorem decay_fn_minimum_witness:
  "decay_fn sample_tf_train sample_decay ''exponential_decay'' (Float (1 / 2)) 1 True 0
     (Float (1 / 10)) (Float 1) 4 = Inr (Float (1 / 10)) \<and>
   tf_greater_equal (Float (1 / 10)) (Float (1 / 10))"
proof -
  have v: "decay_fn sample_tf_train sample_decay ''exponential_decay'' (Float (1 / 2)) 1 True
      0 (Float (1 / 10)) (Float 1) 4 = Inr (Float (1 / 10))"
    by (simp add: decay_fn_resolved sample_resolved exponential_decay_def int_power_def
        tf_maximum_simps numeral_eq_Suc)
  have "Float (1 / 10) \<noteq> NaN"
    by simp
  with v show ?thesis
    using decay_fn_minimum [of sample_tf_train sample_decay "''exponential_decay''"
        "Float (1 / 2)" 1 True 0 "Float (1 / 10)" "Float 1" 4 "Float (1 / 10)"]
    by blast
qed

text \<open>
  A rate of minus one half without staircase: at step 1 of 2 the power is not a
  number, \<^verbatim>\<open>tf.maximum\<close> passes \<^verbatim>\<open>NaN\<close> on, and \<^verbatim>\<open>NaN\<close> is not at least the minimum 0.
\<close>

theorem decay_fn_nan_counterexample:
  "decay_fn sample_tf_train sample_decay ''exponential_decay'' (Float (- 1 / 2)) 2 False 0
     (Float 0) (Float 1) 1 = Inr NaN \<and>
   \<not> tf_greater_equal NaN (Float 0)"
  by (simp add: decay_fn_resolved sample_resolved exponential_decay_def tf_maximum_simps
      tf_greater_equal_def)



text \<open>
  C10. \<^verbatim>\<open>learning_rate_decay_fn\<close> returns a decay function for every decay type;
  when the type names no strategy, the error is raised by each application of the
  returned function.
\<close>

theorem learning_rate_decay_fn_defers_lookup:
  "\<exists>f. learning_rate_decay_fn tf_train decay decay_type decay_rate decay_steps staircase
          start_decay_steps minimum_learning_rate = Inr f \<and>
        (getattr tf_train decay_type = None \<and> getattr decay decay_type = None \<longrightarrow>
           (\<forall>learning_rate global_step.
              f learning_rate global_step =
                Inl (ValueError (''Unknown decay function: '' @ decay_type))))"
  by (simp add: learning_rate_decay_fn_def decay_fn_def getattr_def)

text \<open>The unknown type \<open>linear_decay\<close>: a function is returned, and applying it fails.\<close>

theorem learning_rate_decay_fn_defers_lookup_witness:
  "\<exists>f. learning_rate_decay_fn sample_tf_train sample_decay ''linear_decay'' (Float (1 / 2)) 10
          True 0 (Float 0) = Inr f \<and>
        f (Float 1) 20 = Inl (ValueError ''Unknown decay function: linear_decay'')"
  using learning_rate_decay_fn_defers_lookup [of sample_tf_train sample_decay
          "''linear_decay''" "Float (1 / 2)" 10 True 0 "Float 0"]
  by (auto simp add: getattr_def sample_tf_train_def sample_decay_def)

section \<open>The example filter and the word counters\<close>

text \<open>
  C7. The filter is the conjunction of the conditions that apply: a features
  \<^verbatim>\<open>length\<close> must be positive and at most \<^verbatim>\<open>maximum_features_length\<close> when that is
  set, likewise the \<^verbatim>\<open>length\<close> of labels that are a dictionary, and with no length
  at all the filter accepts. The four examples of the specification follow.
\<close>

theorem filter_example_conjunction:
  "filter_example features labels maximum_features_length maximum_labels_length =
     spec_filter features labels maximum_features_length maximum_labels_length \<and>
   filter_example [''length'' \<mapsto> 0] LNone None None = False \<and>
   filter_example [''length'' \<mapsto> 5] LNone (Some 4) None = False \<and>
   filter_example [''length'' \<mapsto> 5] LNone (Some 10) None = True \<and>
   filter_example Map.empty LNone None None = True"
proof -
  have general: "\<And>features labels maximum_features_length maximum_labels_length.
      filter_example features labels maximum_features_length maximum_labels_length =
        spec_filter features labels maximum_features_length maximum_labels_length"
    by (simp add: filter_example_def spec_filter_def length_ok_def labels_length_def Let_def
        reduce_all_append reduce_all_simps split: option.splits labels.splits)
  show ?thesis
    unfolding general
    by (simp add: spec_filter_def length_ok_def labels_length_def)
qed

text \<open>
  C9. \<^verbatim>\<open>_count_words\<close> only adds nodes to the graph. Among the nodes added, those of
  the features counter are its variable and its update by the sum of the lengths when
  the features carry a \<^verbatim>\<open>length\<close>, and none otherwise; those of the labels counter
  likewise, present exactly when the labels are a dictionary with a \<^verbatim>\<open>length\<close>.
\<close>

theorem count_words_counters:
  "\<exists>new. count_words features labels graph = graph @ new \<and>
     counter_nodes ''features'' new = counter_of ''features'' (features ''length'') \<and>
     counter_nodes ''labels'' new = counter_of ''labels'' (labels_length labels) \<and>
     (counter_nodes ''features'' new \<noteq> [] \<longleftrightarrow> features ''length'' \<noteq> None) \<and>
     (counter_nodes ''labels'' new \<noteq> [] \<longleftrightarrow>
        (\<exists>d. labels = LDict d \<and> d ''length'' \<noteq> None))"
  by (cases labels)
     (auto simp add: count_words_def add_counter_def counter_nodes_def counter_of_def
        labels_length_def Let_def split: option.splits)

text \<open>
  A batch of lengths 3, 4 and 5 adds 12 to the features counter; labels that are a
  bare tensor give no labels counter, labels with lengths 6 and 1 add 7; features
  without \<^verbatim>\<open>length\<close> give no features counter.
\<close>

theorem count_words_counters_witness:
  "counter_nodes ''features'' (count_words [''length'' \<mapsto> [3, 4, 5]] (LTensor [1, 2]) []) =
     [Variable ''words_per_sec/features_init'' 0 False,
      AssignAdd ''words_per_sec/features'' ''words_per_sec/features_init'' 12] \<and>
   counter_nodes ''labels'' (count_words [''length'' \<mapsto> [3, 4, 5]] (LTensor [1, 2]) []) = [] \<and>
   counter_nodes ''labels''
     (count_words [''length'' \<mapsto> [3, 4, 5]] (LDict [''length'' \<mapsto> [6, 1]]) []) =
     [Variable ''words_per_sec/labels_init'' 0 False,
      AssignAdd ''words_per_sec/labels'' ''words_per_sec/labels_init'' 7] \<and>
   counter_nodes ''features'' (count_words [''ids'' \<mapsto> [3, 4, 5]] LNone []) = []"
proof -
  obtain n1 where n1: "count_words [''length'' \<mapsto> [3, 4, 5]] (LTensor [1, 2]) [] = [] @ n1"
    "counter_nodes ''features'' n1 =
       counter_of ''features'' ([''length'' \<mapsto> [3, 4, 5]] ''length'')"
    "counter_nodes ''labels'' n1 = counter_of ''labels'' (labels_length (LTensor [1, 2]))"
    using count_words_counters [of "[''length'' \<mapsto> [3, 4, 5]]" "LTensor [1, 2]" "[]"]
    by blast
  obtain n2 where n2:
    "count_words [''length'' \<mapsto> [3, 4, 5]] (LDict [''length'' \<mapsto> [6, 1]]) [] = [] @ n2"
    "counter_nodes ''labels'' n2 =
       counter_of ''labels'' (labels_length (LDict [''length'' \<mapsto> [6, 1]]))"
    using count_words_counters [of "[''length'' \<mapsto> [3, 4, 5]]"
        "LDict [''length'' \<mapsto> [6, 1]]" "[]"]
    by blast
  obtain n3 where n3: "count_words [''ids'' \<mapsto> [3, 4, 5]] LNone [] = [] @ n3"
    "counter_nodes ''features'' n3 =
       counter_of ''features'' ([''ids'' \<mapsto> [3, 4, 5]] ''length'')"
    using count_words_counters [of "[''ids'' \<mapsto> [3, 4, 5]]" LNone "[]"]
    by blast
  show ?thesis
    unfolding n1(1) n2(1) n3(1) append_Nil n1(2,3) n2(2) n3(2)
    by (simp add: counter_of_def labels_length_def reduce_sum_def)
qed

section \<open>The training op without decay\<close>

text \<open>
  C8, as the code has it. When \<^verbatim>\<open>params\<close> has the key \<^verbatim>\<open>decay_type\<close> with the value
  \<^verbatim>\<open>None\<close> (and the keys of the optimizer call), \<^verbatim>\<open>_build_train_op\<close> passes no decay
  function and the configured learning rate to \<^verbatim>\<open>optimize_loss\<close>, whose rate is
  then the configured one at every step.
\<close>

theorem build_train_op_no_decay:
  assumes "p_decay_type params = Some None"
    and "p_learning_rate params = Some learning_rate"
    and "p_optimizer params = Some optimizer"
    and "p_clip_gradients params = Some clip_gradients"
  shows "\<exists>call. build_train_op tf_train decay loss params = Inr call \<and>
           ol_learning_rate_decay_fn call = None \<and>
           ol_learning_rate call = learning_rate \<and>
           (\<forall>step. optimize_loss_learning_rate call step = Inr learning_rate)"
  using assms
  by (simp add: build_train_op_def bind_err_def getitem_def optimize_loss_learning_rate_def)

text \<open>The sample parameters: the rate is one tenth at step 0 and at step 1000.\<close>

theorem build_train_op_no_decay_witness:
  "\<exists>call. build_train_op sample_tf_train sample_decay (0::nat) sample_params = Inr call \<and>
     ol_learning_rate_decay_fn call = None \<and>
     ol_learning_rate call = Float (1 / 10) \<and>
     optimize_loss_learning_rate call 0 = Inr (Float (1 / 10)) \<and>
     optimize_loss_learning_rate call 1000 = Inr (Float (1 / 10))"
proof -
  have "\<exists>call. build_train_op sample_tf_train sample_decay (0::nat) sample_params = Inr call \<and>
           ol_learning_rate_decay_fn call = None \<and>
           ol_learning_rate call = Float (1 / 10) \<and>
           (\<forall>step. optimize_loss_learning_rate call step = Inr (Float (1 / 10)))"
    by (rule build_train_op_no_decay) (simp_all add: sample_params_def)
  then show ?thesis
    by blast
qed

text \<open>
  Without the key \<^verbatim>\<open>decay_type\<close> the first lookup of \<^verbatim>\<open>_build_train_op\<close> raises
  \<^verbatim>\<open>KeyError\<close>: no learning rate reaches the optimizer.
\<close>

theorem absent_decay_type_counterexample:
  "build_train_op sample_tf_train sample_decay (0::nat) sample_params_no_decay_type =
     Inl (KeyError ''decay_type'')"
  by (simp add: build_train_op_def bind_err_def getitem_def sample_params_no_decay_type_def
      sample_params_def)

section \<open>The input function\<close>

text \<open>
  C6. In every mode but \<^verbatim>\<open>PREDICT\<close>, \<^verbatim>\<open>input_fn\<close> without a labels file raises the
  labels-file error (the specification's \<open>ConfigurationError\<close>, a \<^verbatim>\<open>ValueError\<close> in
  the source) instead of returning the function that builds the pipeline; with a
  labels file, or in \<^verbatim>\<open>PREDICT\<close> mode, it raises nothing.
\<close>

theorem input_fn_labels_required:
  "(mode \<noteq> PREDICT \<and> labels_file = None \<longrightarrow>
      input_fn self mode batch_size buffer_size num_buckets resources features_file
        labels_file maximum_features_length maximum_labels_length =
      Inl (ValueError ''Labels file is required for training and evaluation'')) \<and>
   (mode = PREDICT \<or> labels_file \<noteq> None \<longrightarrow>
      \<not> isl (input_fn self mode batch_size buffer_size num_buckets resources features_file
               labels_file maximum_features_length maximum_labels_length))"
  by (simp add: input_fn_def)

text \<open>Training and evaluation without labels fail; prediction and training with labels do not.\<close>

theorem input_fn_labels_required_witness:
  "input_fn sample_model TRAIN 64 1000 5 () ''src.txt'' None (Some 50) (Some 50) =
     Inl (ValueError ''Labels file is required for training and evaluation'') \<and>
   input_fn sample_model EVAL 64 1000 5 () ''src.txt'' None None None =
     Inl (ValueError ''Labels file is required for training and evaluation'') \<and>
   \<not> isl (input_fn sample_model PREDICT 64 1000 5 () ''src.txt'' None None None) \<and>
   \<not> isl (input_fn sample_model TRAIN 64 1000 5 () ''src.txt'' (Some ''tgt.txt'')
            (Some 50) (Some 50))"
  using input_fn_labels_required [of TRAIN None sample_model 64 1000 5 "()" "''src.txt''"
          "Some 50" "Some 50"]
        input_fn_labels_required [of EVAL None sample_model 64 1000 5 "()" "''src.txt''"
          None None]
        input_fn_labels_required [of PREDICT None sample_model 64 1000 5 "()" "''src.txt''"
          None None]
        input_fn_labels_required [of TRAIN "Some ''tgt.txt''" sample_model 64 1000 5 "()"
          "''src.txt''" "Some 50" "Some 50"]
  by simp

text \<open>
  C5, as the code has it. \<^verbatim>\<open>input_fn\<close> checks nothing but the labels file: whether
  it raises does not depend on the two length bounds, and whenever the mode is
  \<^verbatim>\<open>PREDICT\<close> or a labels file is given it returns the function that builds the
  pipeline with those bounds, whatever their sign.
\<close>

theorem input_fn_ignores_length_bounds:
  "(isl (input_fn self mode batch_size buffer_size num_buckets resources features_file
           labels_file maximum_features_length maximum_labels_length) \<longleftrightarrow>
    isl (input_fn self mode batch_size buffer_size num_buckets resources features_file
           labels_file None None)) \<and>
   (mode = PREDICT \<or> labels_file \<noteq> None \<longrightarrow>
      (\<exists>build. input_fn self mode batch_size buffer_size num_buckets resources features_file
                 labels_file maximum_features_length maximum_labels_length = Inr build \<and>
               (\<forall>now. build now =
                  input_fn_impl self now mode batch_size buffer_size num_buckets resources
                    features_file labels_file maximum_features_length
                    maximum_labels_length)))"
  by (simp add: input_fn_def)

text \<open>Evaluation with bounds of -7 and 0: the builder is returned.\<close>

theorem input_fn_ignores_length_bounds_witness:
  "\<exists>build. input_fn sample_model EVAL 64 1000 5 () ''src.txt'' (Some ''tgt.txt'')
             (Some (- 7)) (Some 0) = Inr build \<and>
     build 0 =
       input_fn_impl sample_model 0 EVAL 64 1000 5 () ''src.txt'' (Some ''tgt.txt'')
         (Some (- 7)) (Some 0)"
  using input_fn_ignores_length_bounds [of sample_model EVAL 64 1000 5 "()" "''src.txt''"
          "Some ''tgt.txt''" "Some (- 7)" "Some 0"]
  by auto

text \<open>
  Training with a features bound of 0 and a labels bound of -3 is not rejected, and
  the pipeline is built: zip, filter, shuffle, repeat, group by window.
\<close>

theorem nonpositive_length_bound_counterexample:
  "\<not> isl (input_fn sample_model TRAIN 64 1000 5 () ''src.txt'' (Some ''tgt.txt'')
            (Some 0) (Some (- 3))) \<and>
   dataset_ops (input_fn_impl sample_model 0 TRAIN 64 1000 5 () ''src.txt'' (Some ''tgt.txt'')
                  (Some 0) (Some (- 3))) =
     [''group_by_window'', ''repeat'', ''shuffle'', ''filter'', ''zip'']"
  by (simp add: input_fn_def input_fn_impl_def sample_model_def)

end
